theory Spec2Isabelle
  imports Main
begin

section \<open>Database type identities of \<open>db/types/base.py\<close>\<close>

subsection \<open>Exceptions\<close>

text \<open>
  The exceptions the module raises or catches. \<open>Exception msg\<close> is the plain
  \<open>Exception\<close> raised by \<open>get_db_type_enum_from_class\<close> with its message;
  \<open>DBAPIError\<close> stands for whatever the connection raises during I/O.
\<close>

datatype exn = ValueError | TypeError | Exception string | DBAPIError string

subsection \<open>The two enumerations\<close>

text \<open>
  \<open>class PostgresType(DatabaseType, Enum)\<close>, members in definition order. The member
  \<open>_ARRAY\<close> is written \<open>ARRAY\<close> (an Isabelle name cannot start with an underscore)
  and \<open>CHAR\<close> is written \<open>CHAR'\<close> (\<open>CHAR\<close> is reserved syntax of HOL).
\<close>

datatype PostgresType =
    ARRAY | BIGINT | BIT_VARYING | BIT | BOOLEAN | BYTEA | CHAR' | CHARACTER_VARYING
  | CHARACTER | CIDR | DATE | DATERANGE | DOUBLE_PRECISION | FLOAT | HSTORE | INET
  | INT4RANGE | INT8RANGE | INTEGER | INTERVAL | JSON | JSONB | MACADDR | MONEY | NAME
  | NUMERIC | NUMRANGE | OID | REAL | REGCLASS | SMALLINT | TEXT | TIME
  | TIME_WITH_TIME_ZONE | TIME_WITHOUT_TIME_ZONE | TIMESTAMP | TIMESTAMP_WITH_TIME_ZONE
  | TIMESTAMP_WITHOUT_TIME_ZONE | TSRANGE | TSTZRANGE | TSVECTOR | UUID

text \<open>The value each member is defined with (lines 92 to 133).\<close>

fun PostgresType_value :: "PostgresType \<Rightarrow> string" where
  "PostgresType_value ARRAY = ''_array''"
| "PostgresType_value BIGINT = ''bigint''"
| "PostgresType_value BIT_VARYING = ''bit varying''"
| "PostgresType_value BIT = ''bit''"
| "PostgresType_value BOOLEAN = ''boolean''"
| "PostgresType_value BYTEA = ''bytea''"
| "PostgresType_value CHAR' = CHR 0x22 # ''char'' @ [CHR 0x22]"
| "PostgresType_value CHARACTER_VARYING = ''character varying''"
| "PostgresType_value CHARACTER = ''character''"
| "PostgresType_value CIDR = ''cidr''"
| "PostgresType_value DATE = ''date''"
| "PostgresType_value DATERANGE = ''daterange''"
| "PostgresType_value DOUBLE_PRECISION = ''double precision''"
| "PostgresType_value FLOAT = ''float''"
| "PostgresType_value HSTORE = ''hstore''"
| "PostgresType_value INET = ''inet''"
| "PostgresType_value INT4RANGE = ''int4range''"
| "PostgresType_value INT8RANGE = ''int8range''"
| "PostgresType_value INTEGER = ''integer''"
| "PostgresType_value INTERVAL = ''interval''"
| "PostgresType_value JSON = ''json''"
| "PostgresType_value JSONB = ''jsonb''"
| "PostgresType_value MACADDR = ''macaddr''"
| "PostgresType_value MONEY = ''money''"
| "PostgresType_value NAME = ''name''"
| "PostgresType_value NUMERIC = ''numeric''"
| "PostgresType_value NUMRANGE = ''numrange''"
| "PostgresType_value OID = ''oid''"
| "PostgresType_value REAL = ''real''"
| "PostgresType_value REGCLASS = ''regclass''"
| "PostgresType_value SMALLINT = ''smallint''"
| "PostgresType_value TEXT = ''text''"
| "PostgresType_value TIME = ''time''"
| "PostgresType_value TIME_WITH_TIME_ZONE = ''time with time zone''"
| "PostgresType_value TIME_WITHOUT_TIME_ZONE = ''time without time zone''"
| "PostgresType_value TIMESTAMP = ''timestamp''"
| "PostgresType_value TIMESTAMP_WITH_TIME_ZONE = ''timestamp with time zone''"
| "PostgresType_value TIMESTAMP_WITHOUT_TIME_ZONE = ''timestamp without time zone''"
| "PostgresType_value TSRANGE = ''tsrange''"
| "PostgresType_value TSTZRANGE = ''tstzrange''"
| "PostgresType_value TSVECTOR = ''tsvector''"
| "PostgresType_value UUID = ''uuid''"

text \<open>Iterating the enumeration class yields its members in definition order.\<close>

definition PostgresType_members :: "PostgresType list" where
  "PostgresType_members =
     [ARRAY, BIGINT, BIT_VARYING, BIT, BOOLEAN, BYTEA, CHAR', CHARACTER_VARYING,
      CHARACTER, CIDR, DATE, DATERANGE, DOUBLE_PRECISION, FLOAT, HSTORE, INET,
      INT4RANGE, INT8RANGE, INTEGER, INTERVAL, JSON, JSONB, MACADDR, MONEY, NAME,
      NUMERIC, NUMRANGE, OID, REAL, REGCLASS, SMALLINT, TEXT, TIME,
      TIME_WITH_TIME_ZONE, TIME_WITHOUT_TIME_ZONE, TIMESTAMP, TIMESTAMP_WITH_TIME_ZONE,
      TIMESTAMP_WITHOUT_TIME_ZONE, TSRANGE, TSTZRANGE, TSVECTOR, UUID]"

text \<open>
  \<open>PostgresType(v)\<close>: the member whose value is \<open>v\<close>; \<open>ValueError\<close> when there is
  none.
\<close>

definition PostgresType_of :: "string \<Rightarrow> exn + PostgresType" where
  "PostgresType_of v =
     (case find (\<lambda>m. PostgresType_value m = v) PostgresType_members of
        None \<Rightarrow> Inl ValueError
      | Some m \<Rightarrow> Inr m)"

text \<open>\<open>class MathesarCustomType(DatabaseType, Enum)\<close> (lines 156 to 173).\<close>

datatype MathesarCustomType = EMAIL | MATHESAR_MONEY | MULTICURRENCY_MONEY | URI

text \<open>The unqualified name each member is declared with.\<close>

fun MathesarCustomType_unqualified :: "MathesarCustomType \<Rightarrow> string" where
  "MathesarCustomType_unqualified EMAIL = ''email''"
| "MathesarCustomType_unqualified MATHESAR_MONEY = ''mathesar_money''"
| "MathesarCustomType_unqualified MULTICURRENCY_MONEY = ''multicurrency_money''"
| "MathesarCustomType_unqualified URI = ''uri''"

definition MathesarCustomType_members :: "MathesarCustomType list" where
  "MathesarCustomType_members = [EMAIL, MATHESAR_MONEY, MULTICURRENCY_MONEY, URI]"

text \<open>\<open>sep.join(parts)\<close> on strings.\<close>

fun join :: "string \<Rightarrow> string list \<Rightarrow> string" where
  "join sep [] = []"
| "join sep [x] = x"
| "join sep (x # y # ys) = x @ sep @ join sep (y # ys)"

text \<open>
  \<open>get_qualified_name\<close>. The module constant \<open>_ma_type_qualifier_prefix\<close> is
  \<open>preparer.quote_schema(SCHEMA)\<close> with \<open>SCHEMA\<close> built from
  \<open>constants.MATHESAR_PREFIX\<close>; that constant and the preparer lie outside this module,
  so the prefix is the parameter \<open>q\<close> of everything that depends on it (the source's
  comment: it should usually equal \<open>mathesar_types\<close>).
\<close>

definition get_qualified_name :: "string \<Rightarrow> string \<Rightarrow> string" where
  "get_qualified_name q unqualified_name = join ''.'' [q, unqualified_name]"

text \<open>\<open>MathesarCustomType.__new__\<close>: the member's value is the qualified id.\<close>

definition MathesarCustomType_value :: "string \<Rightarrow> MathesarCustomType \<Rightarrow> string" where
  "MathesarCustomType_value q m = get_qualified_name q (MathesarCustomType_unqualified m)"

definition MathesarCustomType_of :: "string \<Rightarrow> string \<Rightarrow> exn + MathesarCustomType" where
  "MathesarCustomType_of q v =
     (case find (\<lambda>m. MathesarCustomType_value q m = v) MathesarCustomType_members of
        None \<Rightarrow> Inl ValueError
      | Some m \<Rightarrow> Inr m)"

text \<open>A \<open>DatabaseType\<close> is a member of one of the two enumerations.\<close>

datatype DatabaseType = Vanilla PostgresType | Custom MathesarCustomType

text \<open>The property \<open>id\<close>: the member's value.\<close>

fun id_of :: "string \<Rightarrow> DatabaseType \<Rightarrow> string" where
  "id_of q (Vanilla m) = PostgresType_value m"
| "id_of q (Custom m) = MathesarCustomType_value q m"

subsection \<open>The classification sets and predicates\<close>

definition non_canonical_alias_db_types :: "DatabaseType set" where
  "non_canonical_alias_db_types = {Vanilla FLOAT, Vanilla TIME, Vanilla TIMESTAMP}"

definition inconsistent_db_types :: "DatabaseType set" where
  "inconsistent_db_types =
     non_canonical_alias_db_types \<union> {Vanilla NAME, Vanilla CHAR', Vanilla BIT_VARYING}"

definition sa_only_db_types :: "DatabaseType set" where
  "sa_only_db_types = {Vanilla ARRAY}"

definition optional_db_types :: "DatabaseType set" where
  "optional_db_types = {Vanilla HSTORE}"

definition known_vanilla_db_types :: "DatabaseType set" where
  "known_vanilla_db_types = set (map Vanilla PostgresType_members)"

definition known_custom_db_types :: "DatabaseType set" where
  "known_custom_db_types = set (map Custom MathesarCustomType_members)"

definition known_db_types :: "DatabaseType set" where
  "known_db_types = known_vanilla_db_types \<union> known_custom_db_types"

text \<open>
  The order in which a frozenset is iterated is not specified; the model iterates
  \<open>known_db_types\<close> in this order, and the theorems speak of the set of the result only.
\<close>

definition known_db_types_iter :: "DatabaseType list" where
  "known_db_types_iter =
     map Vanilla PostgresType_members @ map Custom MathesarCustomType_members"

text \<open>The truth value of a frozenset used as a condition: it is true when non-empty.\<close>

definition truthy :: "'a set \<Rightarrow> bool" where
  "truthy s = (s \<noteq> {})"

definition is_alias :: "DatabaseType \<Rightarrow> bool" where
  "is_alias t = (t \<in> non_canonical_alias_db_types)"

definition is_sa_only :: "DatabaseType \<Rightarrow> bool" where
  "is_sa_only t = (t \<in> sa_only_db_types)"

definition is_optional :: "DatabaseType \<Rightarrow> bool" where
  "is_optional t = (t \<in> optional_db_types)"

definition is_inconsistent :: "DatabaseType \<Rightarrow> bool" where
  "is_inconsistent t = (t \<in> inconsistent_db_types)"

definition is_ignored :: "DatabaseType \<Rightarrow> bool" where
  "is_ignored t = (t \<in> inconsistent_db_types)"

definition is_reflection_supported :: "DatabaseType \<Rightarrow> bool" where
  "is_reflection_supported t = (\<not> is_inconsistent t)"

text \<open>
  Line 82 is \<open>not self.is_inconsistent and not _sa_only_db_types\<close>: the second operand
  tests the frozenset itself, not membership of \<open>self\<close> in it.
\<close>

definition is_application_supported :: "DatabaseType \<Rightarrow> bool" where
  "is_application_supported t = (\<not> is_inconsistent t \<and> \<not> truthy sa_only_db_types)"

subsection \<open>Resolving an id\<close>

text \<open>
  \<open>get_db_type_enum_from_id\<close>: each \<open>except ValueError\<close> catches that exception only;
  any other exception of a lookup would propagate.
\<close>

definition get_db_type_enum_from_id :: "string \<Rightarrow> string \<Rightarrow> exn + DatabaseType option" where
  "get_db_type_enum_from_id q db_type_id =
     (case PostgresType_of db_type_id of
        Inr m \<Rightarrow> Inr (Some (Vanilla m))
      | Inl ValueError \<Rightarrow>
          (case MathesarCustomType_of q db_type_id of
             Inr m \<Rightarrow> Inr (Some (Custom m))
           | Inl ValueError \<Rightarrow> Inr None
           | Inl e \<Rightarrow> Inl e)
      | Inl e \<Rightarrow> Inl e)"

subsection \<open>The engine\<close>

text \<open>
  A class of the type library is known by its identity (here its name): two classes are
  equal when they are the same class. An instance remembers its class and the keyword
  arguments it was built with.
\<close>

type_synonym sa_class = string

type_synonym type_options = "(string \<times> string) list"

record sa_instance =
  instance_class :: sa_class
  instance_options :: type_options

text \<open>What a caller may pass where a class is expected.\<close>

datatype sa_type = SA_Class sa_class | SA_Instance sa_instance

fun isclass :: "sa_type \<Rightarrow> bool" where
  "isclass (SA_Class c) = True"
| "isclass (SA_Instance i) = False"

text \<open>
  \<open>engine.dialect\<close>: its \<open>ischema_names\<close> is a dictionary from type id to class, kept as
  the list of its items in iteration order.
\<close>

record dialect =
  dialect_name :: string
  ischema_names :: "(string \<times> sa_class) list"

text \<open>
  The engine: its dialect; the exception \<open>engine.connect()\<close> raises, if it raises one;
  what \<open>connection.execute\<close> gives for the introspection query on an open connection
  (the rows of the one selected column, or the exception raised); and the number of times
  the query has been sent to the database so far.
\<close>

record engine =
  dialect :: dialect
  connect_raises :: "exn option"
  catalog_rows :: "exn + string list"
  queries_sent :: nat

text \<open>
  The behaviour of the type library's classes, outside this module: instantiation with
  keyword arguments, \<open>compile\<close> called on an instance, and \<open>compile\<close> called on the
  class itself.
\<close>

record sa_library =
  sa_init :: "sa_class \<Rightarrow> type_options \<Rightarrow> exn + sa_instance"
  sa_compile :: "sa_instance \<Rightarrow> dialect \<Rightarrow> exn + string"
  sa_class_compile :: "sa_class \<Rightarrow> dialect \<Rightarrow> exn + string"

subsection \<open>Engine binding\<close>

text \<open>\<open>DatabaseType.get_sa_class\<close>; without a \<open>return\<close> the method yields \<open>None\<close>.\<close>

definition get_sa_class :: "string \<Rightarrow> DatabaseType \<Rightarrow> engine \<Rightarrow> sa_class option" where
  "get_sa_class q t eng =
     (if \<not> is_ignored t then map_of (ischema_names (dialect eng)) (id_of q t) else None)"

text \<open>
  \<open>DatabaseType.get_sa_instance_compiled\<close>: a class is always true as a condition, so
  the body runs whenever \<open>get_sa_class\<close> found one.
\<close>

definition get_sa_instance_compiled ::
    "sa_library \<Rightarrow> string \<Rightarrow> DatabaseType \<Rightarrow> engine \<Rightarrow> type_options \<Rightarrow> exn + string option" where
  "get_sa_instance_compiled lib q t eng opts =
     (case get_sa_class q t eng of
        None \<Rightarrow> Inr None
      | Some sa_cls \<Rightarrow>
          (case sa_init lib sa_cls opts of
             Inl e \<Rightarrow> Inl e
           | Inr inst \<Rightarrow>
               (case sa_compile lib inst (dialect eng) of
                  Inl e \<Rightarrow> Inl e
                | Inr sql \<Rightarrow> Inr (Some sql))))"

text \<open>\<open>_compile_sa_class\<close>: only \<open>TypeError\<close> is caught.\<close>

definition compile_sa_class :: "sa_library \<Rightarrow> sa_class \<Rightarrow> engine \<Rightarrow> exn + string" where
  "compile_sa_class lib sa_cls eng =
     (case sa_class_compile lib sa_cls (dialect eng) of
        Inl TypeError \<Rightarrow>
          (case sa_init lib sa_cls [] of
             Inl e \<Rightarrow> Inl e
           | Inr inst \<Rightarrow> sa_compile lib inst (dialect eng))
      | r \<Rightarrow> r)"

text \<open>
  \<open>_get_sa_type_class_id_from_ischema_names\<close>: the loop over the items returns the key
  of the first item whose value equals the argument, and \<open>None\<close> after the last item.
  Only a class equals a class of the registry, and then when it is the same class.
\<close>

fun scan_items :: "sa_type \<Rightarrow> (string \<times> sa_class) list \<Rightarrow> string option" where
  "scan_items sa_type_class1 [] = None"
| "scan_items sa_type_class1 ((db_type_id, sa_type_class2) # items) =
     (if sa_type_class1 = SA_Class sa_type_class2 then Some db_type_id
      else scan_items sa_type_class1 items)"

definition get_sa_type_class_id_from_ischema_names :: "sa_type \<Rightarrow> engine \<Rightarrow> string option" where
  "get_sa_type_class_id_from_ischema_names sa_type_class1 eng =
     scan_items sa_type_class1 (ischema_names (dialect eng))"

definition sa_type_class_to_db_type_id :: "sa_type \<Rightarrow> engine \<Rightarrow> string option" where
  "sa_type_class_to_db_type_id sa_type_class eng =
     get_sa_type_class_id_from_ischema_names sa_type_class eng"

definition programming_error :: string where
  "programming_error = ''Programming error: sa_type parameter must be a class, not an instance.''"

definition unmapped_error :: string where
  "unmapped_error = ''We don't know how to map this type class to a DatabaseType Enum.''"

text \<open>
  \<open>get_db_type_enum_from_class\<close>. \<open>if db_type_id\<close> is false for \<open>None\<close> and for the
  empty string; \<open>if db_type\<close> is false for \<open>None\<close> only (an enumeration member is always
  true). Every path that does not return the member ends in the final \<open>raise\<close>.
\<close>

definition get_db_type_enum_from_class :: "string \<Rightarrow> sa_type \<Rightarrow> engine \<Rightarrow> exn + DatabaseType" where
  "get_db_type_enum_from_class q sa_type eng =
     (if \<not> isclass sa_type then Inl (Exception programming_error)
      else
        (case sa_type_class_to_db_type_id sa_type eng of
           None \<Rightarrow> Inl (Exception unmapped_error)
         | Some db_type_id \<Rightarrow>
             (if db_type_id \<noteq> [] then
                (case get_db_type_enum_from_id q db_type_id of
                   Inl e \<Rightarrow> Inl e
                 | Inr None \<Rightarrow> Inl (Exception unmapped_error)
                 | Inr (Some db_type) \<Rightarrow> Inr db_type)
              else Inl (Exception unmapped_error))))"

subsection \<open>Availability\<close>

text \<open>
  \<open>_get_type_ids_on_database\<close>. When \<open>engine.connect()\<close> raises, the body of the
  \<open>with\<close> statement is not entered: the exception propagates and no query is sent.
  Otherwise \<open>connection.execute\<close> sends the query once: it raises, or its rows become a
  frozenset.
\<close>

definition get_type_ids_on_database :: "engine \<Rightarrow> (exn + string set) \<times> engine" where
  "get_type_ids_on_database eng =
     (case connect_raises eng of
        Some e \<Rightarrow> (Inl e, eng)
      | None \<Rightarrow>
          (case catalog_rows eng of
             Inl e \<Rightarrow> (Inl e, eng\<lparr>queries_sent := queries_sent eng + 1\<rparr>)
           | Inr rows \<Rightarrow> (Inr (set rows), eng\<lparr>queries_sent := queries_sent eng + 1\<rparr>)))"

text \<open>\<open>DatabaseType.is_available\<close>; the optional argument is \<open>None\<close> when not passed.\<close>

definition is_available ::
    "string \<Rightarrow> DatabaseType \<Rightarrow> engine \<Rightarrow> string set option \<Rightarrow> (exn + bool) \<times> engine" where
  "is_available q t eng type_ids_on_database =
     (case type_ids_on_database of
        None \<Rightarrow>
          (case get_type_ids_on_database eng of
             (Inl e, eng') \<Rightarrow> (Inl e, eng')
           | (Inr ids, eng') \<Rightarrow> (Inr (id_of q t \<in> ids), eng'))
      | Some ids \<Rightarrow> (Inr (id_of q t \<in> ids), eng))"

text \<open>
  The generator of \<open>get_available_known_db_types\<close>: each type is kept when
  \<open>is_available\<close> with the snapshot says so; the engine is threaded through the calls.
\<close>

fun available_among ::
    "string \<Rightarrow> DatabaseType list \<Rightarrow> engine \<Rightarrow> string set \<Rightarrow> (exn + DatabaseType list) \<times> engine" where
  "available_among q [] eng ids = (Inr [], eng)"
| "available_among q (db_type # rest) eng ids =
     (case is_available q db_type eng (Some ids) of
        (Inl e, eng') \<Rightarrow> (Inl e, eng')
      | (Inr b, eng') \<Rightarrow>
          (case available_among q rest eng' ids of
             (Inl e, eng'') \<Rightarrow> (Inl e, eng'')
           | (Inr kept, eng'') \<Rightarrow> (Inr (if b then db_type # kept else kept), eng'')))"

definition get_available_known_db_types ::
    "string \<Rightarrow> engine \<Rightarrow> (exn + DatabaseType list) \<times> engine" where
  "get_available_known_db_types q eng =
     (case get_type_ids_on_database eng of
        (Inl e, eng') \<Rightarrow> (Inl e, eng')
      | (Inr type_ids_on_database, eng') \<Rightarrow>
          available_among q known_db_types_iter eng' type_ids_on_database)"

subsection \<open>A concrete engine and library\<close>

text \<open>
  A part of the registry of SQLAlchemy's PostgreSQL dialect, in its order: three ids
  share the class \<open>TIMESTAMP\<close> and three the class \<open>TIME\<close>.
\<close>

definition example_dialect :: dialect where
  "example_dialect =
     \<lparr>dialect_name = ''postgresql'',
      ischema_names =
        [(''integer'', ''INTEGER''),
         (''numeric'', ''NUMERIC''),
         (''timestamp'', ''TIMESTAMP''),
         (''timestamp with time zone'', ''TIMESTAMP''),
         (''timestamp without time zone'', ''TIMESTAMP''),
         (''time with time zone'', ''TIME''),
         (''time without time zone'', ''TIME''),
         (''time'', ''TIME''),
         (''boolean'', ''BOOLEAN''),
         (''int2vector'', ''INT2VECTOR'')]\<rparr>"

definition example_engine :: engine where
  "example_engine =
     \<lparr>dialect = example_dialect,
      connect_raises = None,
      catalog_rows = Inr [''numeric'', ''text'', ''boolean''],
      queries_sent = 0\<rparr>"

text \<open>
  A library whose classes take no constructor options: instantiation with any keyword
  argument raises \<open>TypeError\<close>, instantiation without arguments works.
\<close>

fun no_options_init :: "sa_class \<Rightarrow> type_options \<Rightarrow> exn + sa_instance" where
  "no_options_init c [] = Inr \<lparr>instance_class = c, instance_options = []\<rparr>"
| "no_options_init c (kw # kws) = Inl TypeError"

fun name_compile :: "sa_instance \<Rightarrow> dialect \<Rightarrow> exn + string" where
  "name_compile inst d = Inr (instance_class inst)"

fun unbound_compile :: "sa_class \<Rightarrow> dialect \<Rightarrow> exn + string" where
  "unbound_compile c d = Inl TypeError"

definition example_library :: sa_library where
  "example_library =
     \<lparr>sa_init = no_options_init, sa_compile = name_compile, sa_class_compile = unbound_compile\<rparr>"

section \<open>Properties\<close>

subsection \<open>Lookup by value\<close>

lemma PostgresType_members_all: "m \<in> set PostgresType_members"
  by (cases m) (simp_all add: PostgresType_members_def)

lemma MathesarCustomType_members_all: "m \<in> set MathesarCustomType_members"
  by (cases m) (simp_all add: MathesarCustomType_members_def)

lemma PostgresType_of_value: "PostgresType_of (PostgresType_value m) = Inr m"
  by (cases m) (simp_all add: PostgresType_of_def PostgresType_members_def)

lemma PostgresType_value_no_dot: "CHR ''.'' \<notin> set (PostgresType_value m)"
  by (cases m) simp_all

lemma PostgresType_value_nonempty: "PostgresType_value m \<noteq> []"
  by (cases m) simp_all

lemma PostgresType_of_cases:
  "(PostgresType_of v = Inl ValueError \<and> (\<forall>m. PostgresType_value m \<noteq> v))
   \<or> (\<exists>m. PostgresType_of v = Inr m \<and> PostgresType_value m = v)"
proof (cases "find (\<lambda>m. PostgresType_value m = v) PostgresType_members")
  case None
  then have "\<forall>m. PostgresType_value m \<noteq> v"
    using PostgresType_members_all by (auto simp: find_None_iff)
  with None show ?thesis by (simp add: PostgresType_of_def)
next
  case (Some m)
  then have "PostgresType_value m = v" by (auto simp: find_Some_iff)
  with Some show ?thesis by (simp add: PostgresType_of_def)
qed

lemma MathesarCustomType_unqualified_inj:
  "MathesarCustomType_unqualified a = MathesarCustomType_unqualified b \<Longrightarrow> a = b"
  by (cases a; cases b) simp_all

lemma MathesarCustomType_value_eq: "MathesarCustomType_value q m = q @ ''.'' @ MathesarCustomType_unqualified m"
  by (simp add: MathesarCustomType_value_def get_qualified_name_def)

lemma MathesarCustomType_value_inj:
  "MathesarCustomType_value q a = MathesarCustomType_value q b \<Longrightarrow> a = b"
  by (simp add: MathesarCustomType_value_eq MathesarCustomType_unqualified_inj)

lemma MathesarCustomType_of_value: "MathesarCustomType_of q (MathesarCustomType_value q m) = Inr m"
proof -
  have "find (\<lambda>x. MathesarCustomType_value q x = MathesarCustomType_value q m) MathesarCustomType_members = Some m"
    by (cases m) (auto simp: MathesarCustomType_members_def dest: MathesarCustomType_value_inj)
  then show ?thesis by (simp add: MathesarCustomType_of_def)
qed

lemma MathesarCustomType_of_cases:
  "(MathesarCustomType_of q v = Inl ValueError \<and> (\<forall>m. MathesarCustomType_value q m \<noteq> v))
   \<or> (\<exists>m. MathesarCustomType_of q v = Inr m \<and> MathesarCustomType_value q m = v)"
proof (cases "find (\<lambda>m. MathesarCustomType_value q m = v) MathesarCustomType_members")
  case None
  then have "\<forall>m. MathesarCustomType_value q m \<noteq> v"
    using MathesarCustomType_members_all by (auto simp: find_None_iff)
  with None show ?thesis by (simp add: MathesarCustomType_of_def)
next
  case (Some m)
  then have "MathesarCustomType_value q m = v" by (auto simp: find_Some_iff)
  with Some show ?thesis by (simp add: MathesarCustomType_of_def)
qed

lemma vanilla_custom_ids_differ: "PostgresType_value a \<noteq> MathesarCustomType_value q b"
proof
  assume "PostgresType_value a = MathesarCustomType_value q b"
  then have "CHR ''.'' \<in> set (PostgresType_value a)"
    by (simp add: MathesarCustomType_value_eq)
  then show False by (simp add: PostgresType_value_no_dot)
qed

lemma PostgresType_value_inj:
  assumes "PostgresType_value a = PostgresType_value b"
  shows "a = b"
proof -
  have "PostgresType_of (PostgresType_value a) = PostgresType_of (PostgresType_value b)"
    using assms by (rule arg_cong)
  then have "(Inr a :: exn + PostgresType) = Inr b"
    unfolding PostgresType_of_value .
  then show ?thesis by (rule sum.inject(2) [THEN iffD1])
qed

lemma id_of_inj: "id_of q s = id_of q t \<Longrightarrow> s = t"
  using vanilla_custom_ids_differ [of _ q] vanilla_custom_ids_differ [of _ q, symmetric]
  by (cases s; cases t) (auto dest: PostgresType_value_inj MathesarCustomType_value_inj simp del: PostgresType_value.simps)

lemma id_of_nonempty: "id_of q t \<noteq> []"
  by (cases t) (simp_all add: PostgresType_value_nonempty MathesarCustomType_value_eq del: PostgresType_value.simps)

lemma get_db_type_enum_from_id_id_of: "get_db_type_enum_from_id q (id_of q t) = Inr (Some t)"
proof (cases t)
  case (Vanilla m)
  then show ?thesis by (simp add: get_db_type_enum_from_id_def PostgresType_of_value del: PostgresType_value.simps)
next
  case (Custom m)
  have "PostgresType_of (MathesarCustomType_value q m) = Inl ValueError"
    using PostgresType_of_cases [of "MathesarCustomType_value q m"] vanilla_custom_ids_differ [of _ q m]
    by auto
  with Custom show ?thesis
    by (simp add: get_db_type_enum_from_id_def MathesarCustomType_of_value)
qed

lemma get_db_type_enum_from_id_cases:
  "(get_db_type_enum_from_id q v = Inr None \<and> (\<forall>t. id_of q t \<noteq> v))
   \<or> (\<exists>t. get_db_type_enum_from_id q v = Inr (Some t) \<and> id_of q t = v)"
proof -
  consider m where "PostgresType_of v = Inr m" "PostgresType_value m = v"
    | "PostgresType_of v = Inl ValueError" "\<forall>m. PostgresType_value m \<noteq> v"
    using PostgresType_of_cases [of v] by blast
  then show ?thesis
  proof cases
    case 1
    then have "get_db_type_enum_from_id q v = Inr (Some (Vanilla m)) \<and> id_of q (Vanilla m) = v"
      by (simp add: get_db_type_enum_from_id_def del: PostgresType_value.simps)
    then show ?thesis by blast
  next
    case 2
    consider c where "MathesarCustomType_of q v = Inr c" "MathesarCustomType_value q c = v"
      | "MathesarCustomType_of q v = Inl ValueError" "\<forall>m. MathesarCustomType_value q m \<noteq> v"
      using MathesarCustomType_of_cases [of q v] by blast
    then show ?thesis
    proof cases
      case 1
      with 2 have "get_db_type_enum_from_id q v = Inr (Some (Custom c)) \<and> id_of q (Custom c) = v"
        by (simp add: get_db_type_enum_from_id_def)
      then show ?thesis by blast
    next
      case b: 2
      have "id_of q t \<noteq> v" for t
        using 2 b by (cases t) (simp_all del: PostgresType_value.simps)
      with 2 b show ?thesis by (simp add: get_db_type_enum_from_id_def)
    qed
  qed
qed

subsection \<open>Reverse lookup\<close>

lemma scan_items_Some: "scan_items (SA_Class c) xs = Some k \<Longrightarrow> (k, c) \<in> set xs"
  by (induction xs) (auto split: if_splits)

lemma scan_items_None: "(scan_items (SA_Class c) xs = None) = (c \<notin> snd ` set xs)"
  by (induction xs) (auto split: if_splits)

lemma scan_items_unique:
  assumes "(k, c) \<in> set xs" and "\<forall>k'. (k', c) \<in> set xs \<longrightarrow> k' = k"
  shows "scan_items (SA_Class c) xs = Some k"
proof (cases "scan_items (SA_Class c) xs")
  case None
  then have "c \<notin> snd ` set xs" by (simp add: scan_items_None)
  with assms(1) show ?thesis by force
next
  case (Some k')
  then have "(k', c) \<in> set xs" by (rule scan_items_Some)
  with assms(2) Some show ?thesis by simp
qed

lemma scan_items_first:
  "(scan_items (SA_Class c) xs = Some k)
     = (\<exists>pre post. xs = pre @ (k, c) # post \<and> c \<notin> snd ` set pre)"
proof (induction xs)
  case Nil
  then show ?case by simp
next
  case (Cons x xs)
  obtain k' v where x: "x = (k', v)" by (cases x)
  show ?case
  proof (cases "c = v")
    case True
    have "(\<exists>pre post. (k', c) # xs = pre @ (k, c) # post \<and> c \<notin> snd ` set pre) = (k' = k)"
    proof
      assume "\<exists>pre post. (k', c) # xs = pre @ (k, c) # post \<and> c \<notin> snd ` set pre"
      then obtain pre post where d: "(k', c) # xs = pre @ (k, c) # post"
        and n: "c \<notin> snd ` set pre"
        by blast
      show "k' = k"
      proof (cases pre)
        case Nil
        with d show ?thesis by simp
      next
        case (Cons y ys)
        with d have "y = (k', c)" by simp
        with Cons n show ?thesis by simp
      qed
    next
      assume "k' = k"
      then have "(k', c) # xs = [] @ (k, c) # xs \<and> c \<notin> snd ` set []" by simp
      then show "\<exists>pre post. (k', c) # xs = pre @ (k, c) # post \<and> c \<notin> snd ` set pre"
        by blast
    qed
    with True x show ?thesis by simp
  next
    case False
    have "(\<exists>pre post. (k', v) # xs = pre @ (k, c) # post \<and> c \<notin> snd ` set pre)
        = (\<exists>pre post. xs = pre @ (k, c) # post \<and> c \<notin> snd ` set pre)"
    proof
      assume "\<exists>pre post. (k', v) # xs = pre @ (k, c) # post \<and> c \<notin> snd ` set pre"
      then obtain pre post where d: "(k', v) # xs = pre @ (k, c) # post"
        and n: "c \<notin> snd ` set pre"
        by blast
      show "\<exists>pre post. xs = pre @ (k, c) # post \<and> c \<notin> snd ` set pre"
      proof (cases pre)
        case Nil
        with d False show ?thesis by simp
      next
        case (Cons y ys)
        with d n have "xs = ys @ (k, c) # post \<and> c \<notin> snd ` set ys" by simp
        then show ?thesis by blast
      qed
    next
      assume "\<exists>pre post. xs = pre @ (k, c) # post \<and> c \<notin> snd ` set pre"
      then obtain pre post where d: "xs = pre @ (k, c) # post"
        and n: "c \<notin> snd ` set pre"
        by blast
      from d n False
      have "(k', v) # xs = ((k', v) # pre) @ (k, c) # post \<and> c \<notin> snd ` set ((k', v) # pre)"
        by simp
      then show "\<exists>pre post. (k', v) # xs = pre @ (k, c) # post \<and> c \<notin> snd ` set pre"
        by blast
    qed
    with False x Cons.IH show ?thesis by simp
  qed
qed

lemma from_class_found:
  assumes "sa_type_class_to_db_type_id (SA_Class c) eng = Some k"
  shows "(get_db_type_enum_from_class q (SA_Class c) eng = Inr t) = (k = id_of q t)"
proof -
  consider "get_db_type_enum_from_id q k = Inr None" "\<forall>t. id_of q t \<noteq> k"
    | t' where "get_db_type_enum_from_id q k = Inr (Some t')" "id_of q t' = k"
    using get_db_type_enum_from_id_cases [of q k] by blast
  then show ?thesis
  proof cases
    case 1
    from 1(2) have "k \<noteq> id_of q t" by auto
    moreover from assms 1(1)
    have "get_db_type_enum_from_class q (SA_Class c) eng \<noteq> Inr t"
      by (simp add: get_db_type_enum_from_class_def)
    ultimately show ?thesis by simp
  next
    case 2
    then have "k \<noteq> []" using id_of_nonempty [of q t'] by simp
    with 2 assms have "get_db_type_enum_from_class q (SA_Class c) eng = Inr t'"
      by (simp add: get_db_type_enum_from_class_def)
    with 2 show ?thesis by (auto dest: id_of_inj)
  qed
qed

lemma from_class_unmapped:
  assumes "sa_type_class_to_db_type_id (SA_Class c) eng = Some k" and "\<forall>t. id_of q t \<noteq> k"
  shows "get_db_type_enum_from_class q (SA_Class c) eng = Inl (Exception unmapped_error)"
proof -
  have "get_db_type_enum_from_id q k = Inr None"
    using get_db_type_enum_from_id_cases [of q k] assms(2) by blast
  with assms(1) show ?thesis by (simp add: get_db_type_enum_from_class_def)
qed

subsection \<open>The catalogs and the availability filter\<close>

lemma PostgresType_value_not_unqualified:
  "PostgresType_value a \<noteq> MathesarCustomType_unqualified m"
  by (cases m; cases a) simp_all

lemma unqualified_no_dot: "CHR ''.'' \<notin> set (MathesarCustomType_unqualified m)"
  by (cases m) simp_all

lemma id_of_not_unqualified: "id_of q t \<noteq> MathesarCustomType_unqualified m"
proof (cases t)
  case (Vanilla a)
  then show ?thesis
    by (simp add: PostgresType_value_not_unqualified del: PostgresType_value.simps)
next
  case (Custom c)
  have "CHR ''.'' \<in> set (id_of q (Custom c))"
    by (simp add: MathesarCustomType_value_eq)
  with Custom show ?thesis
    using unqualified_no_dot [of m] by auto
qed

lemma distinct_PostgresType_members: "distinct PostgresType_members"
  by (simp add: PostgresType_members_def)

lemma distinct_known_db_types_iter: "distinct known_db_types_iter"
  by (auto simp: known_db_types_iter_def distinct_map distinct_PostgresType_members
      MathesarCustomType_members_def inj_on_def)

lemma set_known_db_types_iter: "set known_db_types_iter = known_db_types"
  by (simp add: known_db_types_iter_def known_db_types_def known_vanilla_db_types_def
      known_custom_db_types_def)

lemma known_db_types_all: "t \<in> known_db_types"
proof (cases t)
  case (Vanilla m)
  then show ?thesis
    using PostgresType_members_all [of m]
    by (simp add: known_db_types_def known_vanilla_db_types_def)
next
  case (Custom m)
  then show ?thesis
    using MathesarCustomType_members_all [of m]
    by (simp add: known_db_types_def known_custom_db_types_def)
qed

lemma available_among_filter:
  "available_among q ts eng ids = (Inr (filter (\<lambda>t. id_of q t \<in> ids) ts), eng)"
  by (induction ts) (simp_all add: is_available_def)

lemma int2vector_unknown: "get_db_type_enum_from_id ''mathesar_types'' ''int2vector'' = Inr None"
  by (simp add: get_db_type_enum_from_id_def PostgresType_of_def PostgresType_members_def
      MathesarCustomType_of_def MathesarCustomType_members_def MathesarCustomType_value_eq)

lemma nonexistent_unknown:
  "get_db_type_enum_from_id ''mathesar_types'' ''nonexistent_type_xyz'' = Inr None"
  by (simp add: get_db_type_enum_from_id_def PostgresType_of_def PostgresType_members_def
      MathesarCustomType_of_def MathesarCustomType_members_def MathesarCustomType_value_eq)

lemma card_known_vanilla: "card known_vanilla_db_types = 42"
proof -
  have "distinct (map Vanilla PostgresType_members)"
    by (simp add: distinct_map distinct_PostgresType_members inj_on_def)
  then have "card known_vanilla_db_types = length (map Vanilla PostgresType_members)"
    unfolding known_vanilla_db_types_def by (rule distinct_card)
  then show ?thesis by (simp add: PostgresType_members_def)
qed

lemma card_known_custom: "card known_custom_db_types = 4"
  by (simp add: known_custom_db_types_def MathesarCustomType_members_def)

lemma card_known: "card known_db_types = 46"
proof -
  have "card known_db_types = length known_db_types_iter"
    unfolding set_known_db_types_iter [symmetric]
    using distinct_known_db_types_iter by (rule distinct_card)
  then show ?thesis
    by (simp add: known_db_types_iter_def PostgresType_members_def MathesarCustomType_members_def)
qed

section \<open>The claims\<close>

text \<open>
  Claim C1. \<open>is_application_supported\<close> should hold exactly for the types that are neither
  inconsistent nor engine-only, so it should hold for \<open>BOOLEAN\<close>. The code tests the
  truth value of the non-empty frozenset \<open>_sa_only_db_types\<close> instead of membership in
  it: at \<open>BOOLEAN\<close>, which is neither inconsistent nor engine-only, the result is false.
\<close>

theorem is_application_supported_BOOLEAN:
  "is_application_supported (Vanilla BOOLEAN) = False
   \<and> is_inconsistent (Vanilla BOOLEAN) = False
   \<and> is_sa_only (Vanilla BOOLEAN) = False"
  by (simp add: is_application_supported_def truthy_def sa_only_db_types_def
      is_inconsistent_def inconsistent_db_types_def non_canonical_alias_db_types_def
      is_sa_only_def)

text \<open>
  Claim C2, as stated, fails: beside the aliases there are three inconsistent types, not
  two.
\<close>

theorem inconsistent_extra_counterexample:
  "\<not> card (inconsistent_db_types - non_canonical_alias_db_types) = 2
   \<and> is_inconsistent (Vanilla NAME) \<and> \<not> is_alias (Vanilla NAME)
   \<and> is_inconsistent (Vanilla CHAR') \<and> \<not> is_alias (Vanilla CHAR')
   \<and> is_inconsistent (Vanilla BIT_VARYING) \<and> \<not> is_alias (Vanilla BIT_VARYING)"
proof -
  have "inconsistent_db_types - non_canonical_alias_db_types
        = {Vanilla NAME, Vanilla CHAR', Vanilla BIT_VARYING}"
    by (auto simp: inconsistent_db_types_def non_canonical_alias_db_types_def)
  then have "card (inconsistent_db_types - non_canonical_alias_db_types) = 3"
    by simp
  then show ?thesis
    by (simp add: is_inconsistent_def is_alias_def inconsistent_db_types_def
        non_canonical_alias_db_types_def)
qed

text \<open>
  Claim C2, amended. A type is inconsistent exactly when it is an alias or one of the three
  types \<open>NAME\<close>, \<open>CHAR\<close>, \<open>BIT_VARYING\<close>; every alias is inconsistent, and the three
  are not aliases.
\<close>

theorem is_inconsistent_iff:
  "is_inconsistent t =
     (is_alias t \<or> t = Vanilla NAME \<or> t = Vanilla CHAR' \<or> t = Vanilla BIT_VARYING)
   \<and> non_canonical_alias_db_types \<subseteq> inconsistent_db_types
   \<and> \<not> is_alias (Vanilla NAME) \<and> \<not> is_alias (Vanilla CHAR') \<and> \<not> is_alias (Vanilla BIT_VARYING)
   \<and> card (inconsistent_db_types - non_canonical_alias_db_types) = 3"
proof -
  have "inconsistent_db_types - non_canonical_alias_db_types
        = {Vanilla NAME, Vanilla CHAR', Vanilla BIT_VARYING}"
    by (auto simp: inconsistent_db_types_def non_canonical_alias_db_types_def)
  then have c: "card (inconsistent_db_types - non_canonical_alias_db_types) = 3"
    by simp
  have s: "non_canonical_alias_db_types \<subseteq> inconsistent_db_types"
    by (auto simp: inconsistent_db_types_def)
  have n: "\<not> is_alias (Vanilla NAME) \<and> \<not> is_alias (Vanilla CHAR') \<and> \<not> is_alias (Vanilla BIT_VARYING)"
    by (simp add: is_alias_def non_canonical_alias_db_types_def)
  have i: "is_inconsistent t =
     (is_alias t \<or> t = Vanilla NAME \<or> t = Vanilla CHAR' \<or> t = Vanilla BIT_VARYING)"
    by (auto simp: is_inconsistent_def is_alias_def inconsistent_db_types_def)
  from i s n c show ?thesis by blast
qed

theorem is_inconsistent_iff_witness:
  "is_inconsistent (Vanilla FLOAT) \<and> is_alias (Vanilla FLOAT)
   \<and> is_inconsistent (Vanilla BIT_VARYING) \<and> \<not> is_inconsistent (Vanilla BIT)"
  using is_inconsistent_iff [of "Vanilla FLOAT"] is_inconsistent_iff [of "Vanilla BIT_VARYING"]
    is_inconsistent_iff [of "Vanilla BIT"]
  by (simp add: is_alias_def non_canonical_alias_db_types_def)

text \<open>
  Claim C7. \<open>get_sa_class\<close> is \<open>None\<close> for an ignored type, also when the registry has
  an entry for its id; otherwise it is the registry's entry for the id, which is \<open>None\<close>
  exactly when the id is not a key of the registry.
\<close>

theorem get_sa_class_spec:
  "get_sa_class q t eng =
     (if is_ignored t then None else map_of (ischema_names (dialect eng)) (id_of q t))
   \<and> (get_sa_class q t eng = None) =
       (is_ignored t \<or> id_of q t \<notin> fst ` set (ischema_names (dialect eng)))"
  by (simp add: get_sa_class_def map_of_eq_None_iff)

theorem get_sa_class_spec_witness:
  "is_ignored (Vanilla TIMESTAMP)
   \<and> map_of (ischema_names (dialect example_engine)) (id_of ''mathesar_types'' (Vanilla TIMESTAMP)) = Some ''TIMESTAMP''
   \<and> get_sa_class ''mathesar_types'' (Vanilla TIMESTAMP) example_engine = None
   \<and> get_sa_class ''mathesar_types'' (Vanilla BOOLEAN) example_engine = Some ''BOOLEAN''
   \<and> get_sa_class ''mathesar_types'' (Vanilla UUID) example_engine = None"
  using get_sa_class_spec [of "''mathesar_types''" "Vanilla TIMESTAMP" example_engine]
    get_sa_class_spec [of "''mathesar_types''" "Vanilla BOOLEAN" example_engine]
    get_sa_class_spec [of "''mathesar_types''" "Vanilla UUID" example_engine]
  by (simp add: is_ignored_def inconsistent_db_types_def non_canonical_alias_db_types_def
      example_engine_def example_dialect_def)

text \<open>
  Claim C3, as stated, fails: where instantiation with the options raises \<open>TypeError\<close>
  and instantiation without arguments would work, \<open>get_sa_instance_compiled\<close> raises
  the \<open>TypeError\<close>.
\<close>

theorem get_sa_instance_compiled_counterexample:
  "get_sa_class ''mathesar_types'' (Vanilla BOOLEAN) example_engine = Some ''BOOLEAN''
   \<and> sa_init example_library ''BOOLEAN'' [(''length'', ''5'')] = Inl TypeError
   \<and> sa_init example_library ''BOOLEAN'' []
       = Inr \<lparr>instance_class = ''BOOLEAN'', instance_options = []\<rparr>
   \<and> get_sa_instance_compiled example_library ''mathesar_types'' (Vanilla BOOLEAN)
         example_engine [(''length'', ''5'')] = Inl TypeError"
  by (simp add: get_sa_instance_compiled_def get_sa_class_def is_ignored_def
      inconsistent_db_types_def non_canonical_alias_db_types_def example_engine_def
      example_dialect_def example_library_def)

text \<open>
  Claim C3, amended. \<open>get_sa_instance_compiled\<close> returns \<open>None\<close> when there is no
  native class; otherwise it instantiates the class with the given options, an exception
  of that instantiation (a \<open>TypeError\<close> too) propagates, and on success the result is
  what compiling that instance gives. The fallback to instantiation without arguments is
  in \<open>_compile_sa_class\<close> only, after \<open>compile\<close> called on the class raised
  \<open>TypeError\<close>.
\<close>

theorem get_sa_instance_compiled_propagates:
  "(get_sa_class q t eng = None \<longrightarrow> get_sa_instance_compiled lib q t eng opts = Inr None)
   \<and> (get_sa_class q t eng = Some c \<and> sa_init lib c opts = Inl e
        \<longrightarrow> get_sa_instance_compiled lib q t eng opts = Inl e)
   \<and> (get_sa_class q t eng = Some c \<and> sa_init lib c opts = Inr inst
        \<longrightarrow> get_sa_instance_compiled lib q t eng opts
            = (case sa_compile lib inst (dialect eng) of
                 Inl e' \<Rightarrow> Inl e' | Inr sql \<Rightarrow> Inr (Some sql)))
   \<and> (sa_class_compile lib c (dialect eng) = Inl TypeError
        \<longrightarrow> compile_sa_class lib c eng
            = (case sa_init lib c [] of
                 Inl e' \<Rightarrow> Inl e' | Inr inst' \<Rightarrow> sa_compile lib inst' (dialect eng)))"
  by (simp add: get_sa_instance_compiled_def compile_sa_class_def)

theorem get_sa_instance_compiled_propagates_witness:
  "get_sa_class ''mathesar_types'' (Vanilla TIMESTAMP) example_engine = None
   \<and> get_sa_instance_compiled example_library ''mathesar_types'' (Vanilla TIMESTAMP)
         example_engine [] = Inr None
   \<and> get_sa_class ''mathesar_types'' (Vanilla BOOLEAN) example_engine = Some ''BOOLEAN''
   \<and> sa_init example_library ''BOOLEAN'' [(''length'', ''5'')] = Inl TypeError
   \<and> get_sa_instance_compiled example_library ''mathesar_types'' (Vanilla BOOLEAN)
         example_engine [(''length'', ''5'')] = Inl TypeError
   \<and> get_sa_instance_compiled example_library ''mathesar_types'' (Vanilla BOOLEAN)
         example_engine [] = Inr (Some ''BOOLEAN'')
   \<and> sa_class_compile example_library ''BOOLEAN'' (dialect example_engine) = Inl TypeError
   \<and> compile_sa_class example_library ''BOOLEAN'' example_engine = Inr ''BOOLEAN''"
proof -
  have n: "get_sa_class ''mathesar_types'' (Vanilla TIMESTAMP) example_engine = None"
    by (simp add: get_sa_class_def is_ignored_def inconsistent_db_types_def
        non_canonical_alias_db_types_def)
  have b: "get_sa_class ''mathesar_types'' (Vanilla BOOLEAN) example_engine = Some ''BOOLEAN''"
    by (simp add: get_sa_class_def is_ignored_def inconsistent_db_types_def
        non_canonical_alias_db_types_def example_engine_def example_dialect_def)
  have i: "sa_init example_library ''BOOLEAN'' [(''length'', ''5'')] = Inl TypeError"
    by (simp add: example_library_def)
  have z: "sa_init example_library ''BOOLEAN'' []
           = Inr \<lparr>instance_class = ''BOOLEAN'', instance_options = []\<rparr>"
    by (simp add: example_library_def)
  have u: "sa_class_compile example_library ''BOOLEAN'' (dialect example_engine) = Inl TypeError"
    by (simp add: example_library_def)
  have k: "sa_compile example_library \<lparr>instance_class = ''BOOLEAN'', instance_options = []\<rparr>
             (dialect example_engine) = Inr ''BOOLEAN''"
    by (simp add: example_library_def)
  note t1 = get_sa_instance_compiled_propagates
      [where q = "''mathesar_types''" and t = "Vanilla TIMESTAMP" and eng = example_engine
         and lib = example_library and opts = "[]"]
  note t2 = get_sa_instance_compiled_propagates
      [where q = "''mathesar_types''" and t = "Vanilla BOOLEAN" and eng = example_engine
         and lib = example_library and opts = "[(''length'', ''5'')]" and c = "''BOOLEAN''"
         and e = TypeError]
  note t3 = get_sa_instance_compiled_propagates
      [where q = "''mathesar_types''" and t = "Vanilla BOOLEAN" and eng = example_engine
         and lib = example_library and opts = "[]" and c = "''BOOLEAN''"
         and inst = "\<lparr>instance_class = ''BOOLEAN'', instance_options = []\<rparr>"]
  from n b i z u k t1 t2 t3 show ?thesis by simp
qed

text \<open>
  Claim C4, as stated, fails: when several ids of the registry share a class, the reverse
  lookup returns the first of them.
\<close>

theorem round_trip_counterexample:
  "get_sa_class ''mathesar_types'' (Vanilla TIMESTAMP_WITH_TIME_ZONE) example_engine
     = Some ''TIMESTAMP''
   \<and> get_db_type_enum_from_class ''mathesar_types'' (SA_Class ''TIMESTAMP'') example_engine
     = Inr (Vanilla TIMESTAMP)
   \<and> Vanilla TIMESTAMP \<noteq> Vanilla TIMESTAMP_WITH_TIME_ZONE"
  by (simp add: get_sa_class_def is_ignored_def inconsistent_db_types_def
      non_canonical_alias_db_types_def example_engine_def example_dialect_def
      get_db_type_enum_from_class_def sa_type_class_to_db_type_id_def
      get_sa_type_class_id_from_ischema_names_def get_db_type_enum_from_id_def
      PostgresType_of_def PostgresType_members_def)

text \<open>
  Claim C4, amended. For a type \<open>t\<close> with native class \<open>c\<close>, the reverse lookup of \<open>c\<close>
  returns \<open>t\<close> exactly when the id of \<open>t\<close> is the first key of the registry, in its
  iteration order, whose class is \<open>c\<close>: the registry is some items of other classes, then
  the item of that id and \<open>c\<close>, then any items. In particular it returns \<open>t\<close> when no
  other key of the registry has the class \<open>c\<close>.
\<close>

theorem round_trip_first_entry:
  assumes "get_sa_class q t eng = Some c"
  shows "(get_db_type_enum_from_class q (SA_Class c) eng = Inr t)
           = (\<exists>pre post. ischema_names (dialect eng) = pre @ (id_of q t, c) # post
                \<and> c \<notin> snd ` set pre)
         \<and> ((\<forall>k. (k, c) \<in> set (ischema_names (dialect eng)) \<longrightarrow> k = id_of q t)
              \<longrightarrow> get_db_type_enum_from_class q (SA_Class c) eng = Inr t)"
proof -
  from assms have m: "(id_of q t, c) \<in> set (ischema_names (dialect eng))"
    by (auto simp: get_sa_class_def split: if_splits dest: map_of_SomeD)
  then have "c \<in> snd ` set (ischema_names (dialect eng))"
    by force
  then have "scan_items (SA_Class c) (ischema_names (dialect eng)) \<noteq> None"
    by (simp add: scan_items_None)
  then obtain k where k: "sa_type_class_to_db_type_id (SA_Class c) eng = Some k"
    by (auto simp: sa_type_class_to_db_type_id_def get_sa_type_class_id_from_ischema_names_def)
  have scan: "(get_db_type_enum_from_class q (SA_Class c) eng = Inr t)
           = (scan_items (SA_Class c) (ischema_names (dialect eng)) = Some (id_of q t))"
    using from_class_found [OF k, of q t] k
    by (simp add: sa_type_class_to_db_type_id_def get_sa_type_class_id_from_ischema_names_def)
  have first: "(get_db_type_enum_from_class q (SA_Class c) eng = Inr t)
           = (\<exists>pre post. ischema_names (dialect eng) = pre @ (id_of q t, c) # post
                \<and> c \<notin> snd ` set pre)"
    unfolding scan by (rule scan_items_first)
  have "get_db_type_enum_from_class q (SA_Class c) eng = Inr t"
    if "\<forall>k. (k, c) \<in> set (ischema_names (dialect eng)) \<longrightarrow> k = id_of q t"
  proof -
    have "scan_items (SA_Class c) (ischema_names (dialect eng)) = Some (id_of q t)"
      using m that by (rule scan_items_unique)
    then show ?thesis using scan by simp
  qed
  with first show ?thesis by blast
qed

theorem round_trip_first_entry_witness:
  "get_sa_class ''mathesar_types'' (Vanilla TIME_WITH_TIME_ZONE) example_engine = Some ''TIME''
   \<and> ischema_names (dialect example_engine)
       = [(''integer'', ''INTEGER''), (''numeric'', ''NUMERIC''), (''timestamp'', ''TIMESTAMP''),
          (''timestamp with time zone'', ''TIMESTAMP''),
          (''timestamp without time zone'', ''TIMESTAMP'')]
         @ (id_of ''mathesar_types'' (Vanilla TIME_WITH_TIME_ZONE), ''TIME'')
         # [(''time without time zone'', ''TIME''), (''time'', ''TIME''),
            (''boolean'', ''BOOLEAN''), (''int2vector'', ''INT2VECTOR'')]
   \<and> get_db_type_enum_from_class ''mathesar_types'' (SA_Class ''TIME'') example_engine
       = Inr (Vanilla TIME_WITH_TIME_ZONE)
   \<and> get_sa_class ''mathesar_types'' (Vanilla TIME_WITHOUT_TIME_ZONE) example_engine
       = Some ''TIME''
   \<and> get_db_type_enum_from_class ''mathesar_types'' (SA_Class ''TIME'') example_engine
       \<noteq> Inr (Vanilla TIME_WITHOUT_TIME_ZONE)
   \<and> get_sa_class ''mathesar_types'' (Vanilla BOOLEAN) example_engine = Some ''BOOLEAN''
   \<and> get_db_type_enum_from_class ''mathesar_types'' (SA_Class ''BOOLEAN'') example_engine
       = Inr (Vanilla BOOLEAN)"
proof -
  let ?pre = "[(''integer'', ''INTEGER''), (''numeric'', ''NUMERIC''), (''timestamp'', ''TIMESTAMP''),
          (''timestamp with time zone'', ''TIMESTAMP''),
          (''timestamp without time zone'', ''TIMESTAMP'')]"
  let ?post = "[(''time without time zone'', ''TIME''), (''time'', ''TIME''),
            (''boolean'', ''BOOLEAN''), (''int2vector'', ''INT2VECTOR'')]"
  have w: "get_sa_class ''mathesar_types'' (Vanilla TIME_WITH_TIME_ZONE) example_engine
      = Some ''TIME''"
    and o: "get_sa_class ''mathesar_types'' (Vanilla TIME_WITHOUT_TIME_ZONE) example_engine
      = Some ''TIME''"
    and b: "get_sa_class ''mathesar_types'' (Vanilla BOOLEAN) example_engine = Some ''BOOLEAN''"
    by (simp_all add: get_sa_class_def is_ignored_def inconsistent_db_types_def
        non_canonical_alias_db_types_def example_engine_def example_dialect_def)
  have d: "ischema_names (dialect example_engine)
       = ?pre @ (id_of ''mathesar_types'' (Vanilla TIME_WITH_TIME_ZONE), ''TIME'') # ?post"
    by (simp add: example_engine_def example_dialect_def)
  have n: "''TIME'' \<notin> snd ` set ?pre"
    by simp
  from d n
  have "\<exists>pre post. ischema_names (dialect example_engine)
          = pre @ (id_of ''mathesar_types'' (Vanilla TIME_WITH_TIME_ZONE), ''TIME'') # post
        \<and> ''TIME'' \<notin> snd ` set pre"
    by blast
  with round_trip_first_entry [OF w]
  have r: "get_db_type_enum_from_class ''mathesar_types'' (SA_Class ''TIME'') example_engine
       = Inr (Vanilla TIME_WITH_TIME_ZONE)"
    by blast
  then have x: "get_db_type_enum_from_class ''mathesar_types'' (SA_Class ''TIME'') example_engine
       \<noteq> Inr (Vanilla TIME_WITHOUT_TIME_ZONE)"
    by simp
  have "\<forall>k. (k, ''BOOLEAN'') \<in> set (ischema_names (dialect example_engine))
          \<longrightarrow> k = id_of ''mathesar_types'' (Vanilla BOOLEAN)"
    by (simp add: example_engine_def example_dialect_def)
  with round_trip_first_entry [OF b]
  have y: "get_db_type_enum_from_class ''mathesar_types'' (SA_Class ''BOOLEAN'') example_engine
       = Inr (Vanilla BOOLEAN)"
    by blast
  from w d r o x b y show ?thesis by blast
qed

text \<open>
  Claim C5. \<open>get_db_type_enum_from_class\<close> returns a type or raises. For an instance it
  raises the programming error whatever the engine is; when no entry of the registry has
  the class, or the id found is the id of no known type, it raises the other error. It
  returns a type only for a class whose first matching registry key is that type's id,
  and it raises nothing but these two errors.
\<close>

theorem get_db_type_enum_from_class_raises:
  "get_db_type_enum_from_class q (SA_Instance i) eng = Inl (Exception programming_error)
   \<and> (c \<notin> snd ` set (ischema_names (dialect eng))
        \<longrightarrow> get_db_type_enum_from_class q (SA_Class c) eng = Inl (Exception unmapped_error))
   \<and> (sa_type_class_to_db_type_id (SA_Class c) eng = Some k \<and> (\<forall>t. id_of q t \<noteq> k)
        \<longrightarrow> get_db_type_enum_from_class q (SA_Class c) eng = Inl (Exception unmapped_error))
   \<and> (get_db_type_enum_from_class q a eng = Inr t
        \<longrightarrow> (\<exists>c'. a = SA_Class c' \<and> sa_type_class_to_db_type_id (SA_Class c') eng = Some (id_of q t)))
   \<and> (get_db_type_enum_from_class q a eng = Inl e
        \<longrightarrow> e = Exception programming_error \<or> e = Exception unmapped_error)"
proof -
  have p1: "get_db_type_enum_from_class q (SA_Instance i) eng = Inl (Exception programming_error)"
    by (simp add: get_db_type_enum_from_class_def)
  have p2: "get_db_type_enum_from_class q (SA_Class c) eng = Inl (Exception unmapped_error)"
    if "c \<notin> snd ` set (ischema_names (dialect eng))"
  proof -
    from that have "sa_type_class_to_db_type_id (SA_Class c) eng = None"
      by (simp add: sa_type_class_to_db_type_id_def get_sa_type_class_id_from_ischema_names_def
          scan_items_None)
    then show ?thesis by (simp add: get_db_type_enum_from_class_def)
  qed
  have p3: "get_db_type_enum_from_class q (SA_Class c) eng = Inl (Exception unmapped_error)"
    if "sa_type_class_to_db_type_id (SA_Class c) eng = Some k \<and> (\<forall>t. id_of q t \<noteq> k)"
    using that from_class_unmapped [of c eng k q] by blast
  have p4: "\<exists>c'. a = SA_Class c' \<and> sa_type_class_to_db_type_id (SA_Class c') eng = Some (id_of q t)"
    if r: "get_db_type_enum_from_class q a eng = Inr t"
  proof (cases a)
    case (SA_Instance j)
    with r show ?thesis by (simp add: get_db_type_enum_from_class_def)
  next
    case (SA_Class c')
    show ?thesis
    proof (cases "sa_type_class_to_db_type_id (SA_Class c') eng")
      case None
      with r SA_Class show ?thesis by (simp add: get_db_type_enum_from_class_def)
    next
      case (Some k')
      from from_class_found [OF Some, of q t] r SA_Class have "k' = id_of q t" by simp
      with Some SA_Class show ?thesis by simp
    qed
  qed
  have p5: "e = Exception programming_error \<or> e = Exception unmapped_error"
    if l: "get_db_type_enum_from_class q a eng = Inl e"
  proof (cases a)
    case (SA_Instance j)
    with l show ?thesis by (simp add: get_db_type_enum_from_class_def)
  next
    case (SA_Class c')
    show ?thesis
    proof (cases "sa_type_class_to_db_type_id (SA_Class c') eng")
      case None
      with l SA_Class show ?thesis by (auto simp: get_db_type_enum_from_class_def)
    next
      case (Some k')
      show ?thesis
        using get_db_type_enum_from_id_cases [of q k'] l SA_Class Some
        by (auto simp: get_db_type_enum_from_class_def split: if_splits)
    qed
  qed
  from p1 p2 p3 p4 p5 show ?thesis by blast
qed

theorem get_db_type_enum_from_class_raises_witness:
  "get_db_type_enum_from_class ''mathesar_types''
       (SA_Instance \<lparr>instance_class = ''BOOLEAN'', instance_options = []\<rparr>) example_engine
     = Inl (Exception programming_error)
   \<and> ''UUID'' \<notin> snd ` set (ischema_names (dialect example_engine))
   \<and> get_db_type_enum_from_class ''mathesar_types'' (SA_Class ''UUID'') example_engine
     = Inl (Exception unmapped_error)
   \<and> sa_type_class_to_db_type_id (SA_Class ''INT2VECTOR'') example_engine = Some ''int2vector''
   \<and> get_db_type_enum_from_id ''mathesar_types'' ''int2vector'' = Inr None
   \<and> get_db_type_enum_from_class ''mathesar_types'' (SA_Class ''INT2VECTOR'') example_engine
     = Inl (Exception unmapped_error)
   \<and> get_db_type_enum_from_class ''mathesar_types'' (SA_Class ''BOOLEAN'') example_engine
     = Inr (Vanilla BOOLEAN)
   \<and> sa_type_class_to_db_type_id (SA_Class ''BOOLEAN'') example_engine
     = Some (id_of ''mathesar_types'' (Vanilla BOOLEAN))"
proof -
  have u: "''UUID'' \<notin> snd ` set (ischema_names (dialect example_engine))"
    by (simp add: example_engine_def example_dialect_def)
  have s: "sa_type_class_to_db_type_id (SA_Class ''INT2VECTOR'') example_engine = Some ''int2vector''"
    by (simp add: sa_type_class_to_db_type_id_def get_sa_type_class_id_from_ischema_names_def
        example_engine_def example_dialect_def)
  have n: "\<forall>t. id_of ''mathesar_types'' t \<noteq> ''int2vector''"
    using get_db_type_enum_from_id_cases [of "''mathesar_types''" "''int2vector''"]
      int2vector_unknown by auto
  have b: "get_db_type_enum_from_class ''mathesar_types'' (SA_Class ''BOOLEAN'') example_engine
     = Inr (Vanilla BOOLEAN)"
    by (simp add: get_db_type_enum_from_class_def sa_type_class_to_db_type_id_def
        get_sa_type_class_id_from_ischema_names_def example_engine_def example_dialect_def
        get_db_type_enum_from_id_def PostgresType_of_def PostgresType_members_def)
  note t1 = get_db_type_enum_from_class_raises
      [where q = "''mathesar_types''" and eng = example_engine and c = "''UUID''"
         and i = "\<lparr>instance_class = ''BOOLEAN'', instance_options = []\<rparr>"]
  note t2 = get_db_type_enum_from_class_raises
      [where q = "''mathesar_types''" and eng = example_engine and c = "''INT2VECTOR''"
         and k = "''int2vector''" and a = "SA_Class ''BOOLEAN''" and t = "Vanilla BOOLEAN"]
  from t1 u have c1: "get_db_type_enum_from_class ''mathesar_types''
       (SA_Instance \<lparr>instance_class = ''BOOLEAN'', instance_options = []\<rparr>) example_engine
     = Inl (Exception programming_error)"
    and c2: "get_db_type_enum_from_class ''mathesar_types'' (SA_Class ''UUID'') example_engine
     = Inl (Exception unmapped_error)"
    by blast+
  from t2 s n have c3: "get_db_type_enum_from_class ''mathesar_types'' (SA_Class ''INT2VECTOR'') example_engine
     = Inl (Exception unmapped_error)"
    by blast
  from t2 b have c4: "sa_type_class_to_db_type_id (SA_Class ''BOOLEAN'') example_engine
     = Some (id_of ''mathesar_types'' (Vanilla BOOLEAN))"
    by blast
  from c1 u c2 s int2vector_unknown c3 b c4 show ?thesis by blast
qed

text \<open>
  Claim C6. \<open>get_db_type_enum_from_id\<close> never raises. An id that is the value of a
  built-in member resolves to that member (the built-in enumeration is tried first); an
  id that is the value of no built-in member and is the value of a custom member resolves
  to the custom member; an id that is the id of no known type gives \<open>None\<close>.
\<close>

theorem get_db_type_enum_from_id_total:
  "get_db_type_enum_from_id q v \<noteq> Inl e
   \<and> (PostgresType_value m = v
        \<longrightarrow> get_db_type_enum_from_id q v = Inr (Some (Vanilla m)))
   \<and> ((\<forall>m'. PostgresType_value m' \<noteq> v) \<and> MathesarCustomType_value q c = v
        \<longrightarrow> get_db_type_enum_from_id q v = Inr (Some (Custom c)))
   \<and> ((\<forall>t. id_of q t \<noteq> v) \<longrightarrow> get_db_type_enum_from_id q v = Inr None)"
proof -
  have p1: "get_db_type_enum_from_id q v \<noteq> Inl e"
    using get_db_type_enum_from_id_cases [of q v] by auto
  have p2: "get_db_type_enum_from_id q v = Inr (Some (Vanilla m))"
    if "PostgresType_value m = v"
    using that get_db_type_enum_from_id_id_of [of q "Vanilla m"]
    by (simp del: PostgresType_value.simps)
  have p3: "get_db_type_enum_from_id q v = Inr (Some (Custom c))"
    if "MathesarCustomType_value q c = v"
    using that get_db_type_enum_from_id_id_of [of q "Custom c"] by simp
  have p4: "get_db_type_enum_from_id q v = Inr None" if "\<forall>t. id_of q t \<noteq> v"
    using that get_db_type_enum_from_id_cases [of q v] by blast
  from p1 p2 p3 p4 show ?thesis by blast
qed

theorem get_db_type_enum_from_id_total_witness:
  "get_db_type_enum_from_id ''mathesar_types'' ''nonexistent_type_xyz'' = Inr None
   \<and> PostgresType_value BOOLEAN = ''boolean''
   \<and> get_db_type_enum_from_id ''mathesar_types'' ''boolean'' = Inr (Some (Vanilla BOOLEAN))
   \<and> MathesarCustomType_value ''mathesar_types'' URI = ''mathesar_types.uri''
   \<and> get_db_type_enum_from_id ''mathesar_types'' ''mathesar_types.uri'' = Inr (Some (Custom URI))"
proof -
  have n: "\<forall>t. id_of ''mathesar_types'' t \<noteq> ''nonexistent_type_xyz''"
    using get_db_type_enum_from_id_cases [of "''mathesar_types''" "''nonexistent_type_xyz''"]
      nonexistent_unknown by auto
  have u: "MathesarCustomType_value ''mathesar_types'' URI = ''mathesar_types.uri''"
    by (simp add: MathesarCustomType_value_eq)
  have v: "\<forall>m'. PostgresType_value m' \<noteq> ''mathesar_types.uri''"
    using vanilla_custom_ids_differ [of _ "''mathesar_types''" URI] unfolding u by blast
  have b: "PostgresType_value BOOLEAN = ''boolean''" by simp
  note t1 = get_db_type_enum_from_id_total
      [where q = "''mathesar_types''" and v = "''nonexistent_type_xyz''"]
  note t2 = get_db_type_enum_from_id_total
      [where q = "''mathesar_types''" and v = "''boolean''" and m = BOOLEAN]
  note t3 = get_db_type_enum_from_id_total
      [where q = "''mathesar_types''" and v = "''mathesar_types.uri''" and c = URI]
  from t1 n have c1: "get_db_type_enum_from_id ''mathesar_types'' ''nonexistent_type_xyz'' = Inr None"
    by blast
  from t2 b have c2: "get_db_type_enum_from_id ''mathesar_types'' ''boolean'' = Inr (Some (Vanilla BOOLEAN))"
    by blast
  from t3 u v have c3: "get_db_type_enum_from_id ''mathesar_types'' ''mathesar_types.uri'' = Inr (Some (Custom URI))"
    by blast
  from c1 b c2 u c3 show ?thesis by blast
qed

text \<open>
  Claim C8. With a snapshot passed, \<open>is_available\<close> is the membership of the type's id in
  the snapshot, for every type whatever its classification, and the engine is not touched.
  \<open>get_available_known_db_types\<close> never sends the introspection query more than once,
  whatever the size of the catalog. When the connection opens, it sends the query exactly
  once; when the query then succeeds, the result holds, without repetition, exactly the
  known types whose id is among the rows, and when the query raises, the exception
  propagates. Whenever it returns a result it has sent exactly one query. When the
  connection does not open, the exception propagates and no query is sent.
\<close>

theorem availability_is_membership:
  "is_available q t eng (Some ids) = (Inr (id_of q t \<in> ids), eng)
   \<and> queries_sent (snd (get_available_known_db_types q eng)) \<le> queries_sent eng + 1
   \<and> (connect_raises eng = None
        \<longrightarrow> queries_sent (snd (get_available_known_db_types q eng)) = queries_sent eng + 1)
   \<and> (connect_raises eng = None \<and> catalog_rows eng = Inr rows
        \<longrightarrow> (\<exists>r. fst (get_available_known_db_types q eng) = Inr r
                 \<and> distinct r
                 \<and> set r = {t' \<in> known_db_types. id_of q t' \<in> set rows}))
   \<and> (fst (get_available_known_db_types q eng) = Inr r'
        \<longrightarrow> queries_sent (snd (get_available_known_db_types q eng)) = queries_sent eng + 1
            \<and> (\<exists>rows'. catalog_rows eng = Inr rows'
                   \<and> set r' = {t' \<in> known_db_types. id_of q t' \<in> set rows'}))
   \<and> (connect_raises eng = None \<and> catalog_rows eng = Inl e
        \<longrightarrow> fst (get_available_known_db_types q eng) = Inl e)
   \<and> (connect_raises eng = Some e
        \<longrightarrow> get_available_known_db_types q eng = (Inl e, eng))"
proof -
  let ?f = "\<lambda>rows. filter (\<lambda>t'. id_of q t' \<in> set rows) known_db_types_iter"
  have ok: "get_available_known_db_types q eng
      = (Inr (?f rows), eng\<lparr>queries_sent := queries_sent eng + 1\<rparr>)"
    if "connect_raises eng = None" and "catalog_rows eng = Inr rows" for rows
    using that
    by (simp add: get_available_known_db_types_def get_type_ids_on_database_def
        available_among_filter)
  have bad: "get_available_known_db_types q eng
      = (Inl e', eng\<lparr>queries_sent := queries_sent eng + 1\<rparr>)"
    if "connect_raises eng = None" and "catalog_rows eng = Inl e'" for e'
    using that by (simp add: get_available_known_db_types_def get_type_ids_on_database_def)
  have refused: "get_available_known_db_types q eng = (Inl e', eng)"
    if "connect_raises eng = Some e'" for e'
    using that by (simp add: get_available_known_db_types_def get_type_ids_on_database_def)
  have s: "set (?f rows) = {t' \<in> known_db_types. id_of q t' \<in> set rows}" for rows
    by (simp add: set_known_db_types_iter)
  have p1: "is_available q t eng (Some ids) = (Inr (id_of q t \<in> ids), eng)"
    by (simp add: is_available_def)
  have p3: "queries_sent (snd (get_available_known_db_types q eng)) = queries_sent eng + 1"
    if "connect_raises eng = None"
  proof (cases "catalog_rows eng")
    case (Inl e')
    with that show ?thesis by (simp add: bad)
  next
    case (Inr rows)
    with that show ?thesis by (simp add: ok)
  qed
  have p2: "queries_sent (snd (get_available_known_db_types q eng)) \<le> queries_sent eng + 1"
  proof (cases "connect_raises eng")
    case None
    then show ?thesis by (simp add: p3)
  next
    case (Some e')
    then show ?thesis by (simp add: refused)
  qed
  have p4: "\<exists>r. fst (get_available_known_db_types q eng) = Inr r \<and> distinct r
                 \<and> set r = {t' \<in> known_db_types. id_of q t' \<in> set rows}"
    if "connect_raises eng = None \<and> catalog_rows eng = Inr rows"
  proof -
    from that have "fst (get_available_known_db_types q eng) = Inr (?f rows)"
      by (simp add: ok)
    moreover have "distinct (?f rows)"
      using distinct_known_db_types_iter by (rule distinct_filter)
    ultimately show ?thesis using s [of rows] by blast
  qed
  have p5: "queries_sent (snd (get_available_known_db_types q eng)) = queries_sent eng + 1
            \<and> (\<exists>rows'. catalog_rows eng = Inr rows'
                   \<and> set r' = {t' \<in> known_db_types. id_of q t' \<in> set rows'})"
    if r: "fst (get_available_known_db_types q eng) = Inr r'"
  proof (cases "connect_raises eng")
    case (Some e')
    with r show ?thesis by (simp add: refused)
  next
    case None
    show ?thesis
    proof (cases "catalog_rows eng")
      case (Inl e')
      with None r show ?thesis by (simp add: bad)
    next
      case (Inr rows)
      with None r have "r' = ?f rows" by (simp add: ok)
      with None Inr s [of rows] show ?thesis by (simp add: p3)
    qed
  qed
  have p6: "fst (get_available_known_db_types q eng) = Inl e"
    if "connect_raises eng = None \<and> catalog_rows eng = Inl e"
    using that by (simp add: bad)
  have p7: "get_available_known_db_types q eng = (Inl e, eng)" if "connect_raises eng = Some e"
    using that by (rule refused)
  from p1 p2 p3 p4 p5 p6 p7 show ?thesis by blast
qed

theorem availability_is_membership_witness:
  "connect_raises example_engine = None
   \<and> catalog_rows example_engine = Inr [''numeric'', ''text'', ''boolean'']
   \<and> queries_sent (snd (get_available_known_db_types ''mathesar_types'' example_engine)) = 1
   \<and> (\<exists>r. fst (get_available_known_db_types ''mathesar_types'' example_engine) = Inr r
          \<and> Vanilla NUMERIC \<in> set r \<and> Vanilla UUID \<notin> set r)
   \<and> fst (is_available ''mathesar_types'' (Vanilla NUMERIC) example_engine
            (Some {''numeric'', ''text'', ''boolean''})) = Inr True
   \<and> get_available_known_db_types ''mathesar_types''
         (example_engine\<lparr>connect_raises := Some (DBAPIError ''connection refused'')\<rparr>)
       = (Inl (DBAPIError ''connection refused''),
          example_engine\<lparr>connect_raises := Some (DBAPIError ''connection refused'')\<rparr>)
   \<and> queries_sent (snd (get_available_known_db_types ''mathesar_types''
         (example_engine\<lparr>connect_raises := Some (DBAPIError ''connection refused'')\<rparr>))) = 0
   \<and> fst (get_available_known_db_types ''mathesar_types''
            (example_engine\<lparr>catalog_rows := Inl (DBAPIError ''permission denied'')\<rparr>))
       = Inl (DBAPIError ''permission denied'')
   \<and> queries_sent (snd (get_available_known_db_types ''mathesar_types''
         (example_engine\<lparr>catalog_rows := Inl (DBAPIError ''permission denied'')\<rparr>))) = 1"
proof -
  let ?refused = "example_engine\<lparr>connect_raises := Some (DBAPIError ''connection refused'')\<rparr>"
  let ?denied = "example_engine\<lparr>catalog_rows := Inl (DBAPIError ''permission denied'')\<rparr>"
  have n: "connect_raises example_engine = None"
    and c: "catalog_rows example_engine = Inr [''numeric'', ''text'', ''boolean'']"
    and z: "queries_sent example_engine = 0"
    by (simp_all add: example_engine_def)
  have fr: "connect_raises ?refused = Some (DBAPIError ''connection refused'')"
    by simp
  have fd: "connect_raises ?denied = None"
    "catalog_rows ?denied = Inl (DBAPIError ''permission denied'')"
    "queries_sent ?denied = 0"
    by (simp_all add: example_engine_def)
  note t1 = availability_is_membership
      [where q = "''mathesar_types''" and eng = example_engine
         and rows = "[''numeric'', ''text'', ''boolean'']" and t = "Vanilla NUMERIC"
         and ids = "{''numeric'', ''text'', ''boolean''}"]
  note t2 = availability_is_membership
      [where q = "''mathesar_types''" and eng = ?refused
         and e = "DBAPIError ''connection refused''"]
  note t3 = availability_is_membership
      [where q = "''mathesar_types''" and eng = ?denied
         and e = "DBAPIError ''permission denied''"]
  from t1 n c obtain r
    where r: "fst (get_available_known_db_types ''mathesar_types'' example_engine) = Inr r"
    and s: "set r = {t' \<in> known_db_types.
        id_of ''mathesar_types'' t' \<in> set [''numeric'', ''text'', ''boolean'']}"
    by blast
  have "Vanilla NUMERIC \<in> set r \<and> Vanilla UUID \<notin> set r"
    unfolding s using known_db_types_all [of "Vanilla NUMERIC"] by simp
  with r have c3: "\<exists>r. fst (get_available_known_db_types ''mathesar_types'' example_engine) = Inr r
          \<and> Vanilla NUMERIC \<in> set r \<and> Vanilla UUID \<notin> set r"
    by blast
  from t1 n z
  have c2: "queries_sent (snd (get_available_known_db_types ''mathesar_types'' example_engine)) = 1"
    by simp
  from t1 have c4: "fst (is_available ''mathesar_types'' (Vanilla NUMERIC) example_engine
            (Some {''numeric'', ''text'', ''boolean''})) = Inr True"
    by simp
  from t2 fr have c5: "get_available_known_db_types ''mathesar_types'' ?refused
       = (Inl (DBAPIError ''connection refused''), ?refused)"
    by blast
  then have c6: "queries_sent (snd (get_available_known_db_types ''mathesar_types'' ?refused)) = 0"
    by (simp add: example_engine_def)
  from t3 fd have c7: "fst (get_available_known_db_types ''mathesar_types'' ?denied)
       = Inl (DBAPIError ''permission denied'')"
    by blast
  from t3 fd have c8: "queries_sent (snd (get_available_known_db_types ''mathesar_types'' ?denied)) = 1"
    by simp
  from n c c2 c3 c4 c5 c6 c7 c8 show ?thesis by blast
qed

text \<open>
  Claim C9. Every type has a non-empty id; two types with the same id are the same type, so
  the ids of the known types are pairwise distinct across both catalogs; every type is a
  known type; the built-in and custom catalogs are disjoint, and the number of known types
  is the sum of the sizes of the two catalogs (42 and 4). This holds for every qualifier
  prefix.
\<close>

theorem catalog_invariant:
  "id_of q t \<noteq> []
   \<and> (id_of q s = id_of q t) = (s = t)
   \<and> t \<in> known_db_types
   \<and> distinct (map (id_of q) known_db_types_iter)
   \<and> known_vanilla_db_types \<inter> known_custom_db_types = {}
   \<and> card known_db_types = card known_vanilla_db_types + card known_custom_db_types
   \<and> card known_vanilla_db_types = 42 \<and> card known_custom_db_types = 4"
proof -
  have i: "(id_of q s = id_of q t) = (s = t)"
    using id_of_inj [of q s t] by blast
  have d: "distinct (map (id_of q) known_db_types_iter)"
    using distinct_known_db_types_iter id_of_inj [of q]
    by (simp add: distinct_map inj_on_def)
  have e: "known_vanilla_db_types \<inter> known_custom_db_types = {}"
    by (auto simp: known_vanilla_db_types_def known_custom_db_types_def)
  have c: "card known_db_types = card known_vanilla_db_types + card known_custom_db_types"
    by (simp add: card_known card_known_vanilla card_known_custom)
  from id_of_nonempty [of q t] i known_db_types_all [of t] d e c card_known_vanilla
    card_known_custom
  show ?thesis by blast
qed

text \<open>
  Claim C10. For every custom type the unqualified name resolves to nothing, while its id,
  the prefix, a dot and the unqualified name, resolves to the custom type; with the prefix
  \<open>mathesar_types\<close>, \<open>email\<close> gives \<open>None\<close> and \<open>mathesar_types.email\<close> gives
  \<open>EMAIL\<close>.
\<close>

theorem only_qualified_id_resolves:
  "get_db_type_enum_from_id q (MathesarCustomType_unqualified m) = Inr None
   \<and> id_of q (Custom m) = q @ ''.'' @ MathesarCustomType_unqualified m
   \<and> get_db_type_enum_from_id q (id_of q (Custom m)) = Inr (Some (Custom m))
   \<and> get_db_type_enum_from_id ''mathesar_types'' ''email'' = Inr None
   \<and> get_db_type_enum_from_id ''mathesar_types'' ''mathesar_types.email''
       = Inr (Some (Custom EMAIL))"
proof -
  have u: "get_db_type_enum_from_id q' (MathesarCustomType_unqualified m') = Inr None" for q' m'
    using get_db_type_enum_from_id_cases [of q' "MathesarCustomType_unqualified m'"]
      id_of_not_unqualified [of q' _ m'] by blast
  have v: "id_of q' (Custom m') = q' @ ''.'' @ MathesarCustomType_unqualified m'" for q' m'
    by (simp add: MathesarCustomType_value_eq)
  from u [of q m] v [of q m] get_db_type_enum_from_id_id_of [of q "Custom m"]
    u [of "''mathesar_types''" EMAIL]
    get_db_type_enum_from_id_id_of [of "''mathesar_types''" "Custom EMAIL"]
    v [of "''mathesar_types''" EMAIL]
  show ?thesis by simp
qed

end
